theory Spec2Isabelle
  imports Complex_Main
begin

section \<open>Floating-point values, errors and Python values\<close>

text \<open>
  The notebooks compute with IEEE doubles.  They are modelled by the reals extended
  with the two infinities and NaN: the special values that \<open>np.log\<close> and the
  comparisons of the sampler can produce are kept, and so is the overflow of the
  quotient and the product of the inverse transform; rounding of finite results is not
  modelled.
\<close>

datatype pyfloat = Finite real | PInf | MInf | NaN

datatype py_error = ValueError | ZeroDivisionError

text \<open>What a notebook function hands back: an array, a float or a tuple.\<close>

datatype pyvalue = NdArray "pyfloat list" | PyFloat pyfloat | PyTuple "pyvalue list"

text \<open>The line written by \<open>print(f"Acceptance rate {accepted/n}")\<close>.\<close>

datatype message = Acceptance_rate pyfloat

text \<open>\<open>a < b\<close> on floats: every comparison with NaN is false.\<close>

fun fl_lt :: "pyfloat \<Rightarrow> pyfloat \<Rightarrow> bool" where
  "fl_lt NaN b = False"
| "fl_lt a NaN = False"
| "fl_lt (Finite a) (Finite b) = (a < b)"
| "fl_lt (Finite a) PInf = True"
| "fl_lt (Finite a) MInf = False"
| "fl_lt PInf b = False"
| "fl_lt MInf (Finite b) = True"
| "fl_lt MInf PInf = True"
| "fl_lt MInf MInf = False"

text \<open>\<open>a >= b\<close> on floats.\<close>

fun fl_ge :: "pyfloat \<Rightarrow> pyfloat \<Rightarrow> bool" where
  "fl_ge NaN b = False"
| "fl_ge a NaN = False"
| "fl_ge (Finite a) (Finite b) = (b \<le> a)"
| "fl_ge (Finite a) PInf = False"
| "fl_ge (Finite a) MInf = True"
| "fl_ge PInf b = True"
| "fl_ge MInf (Finite b) = False"
| "fl_ge MInf PInf = False"
| "fl_ge MInf MInf = True"

fun fl_neg :: "pyfloat \<Rightarrow> pyfloat" where
  "fl_neg (Finite a) = Finite (- a)"
| "fl_neg PInf = MInf"
| "fl_neg MInf = PInf"
| "fl_neg NaN = NaN"

fun fl_add :: "pyfloat \<Rightarrow> pyfloat \<Rightarrow> pyfloat" where
  "fl_add NaN b = NaN"
| "fl_add a NaN = NaN"
| "fl_add (Finite a) (Finite b) = Finite (a + b)"
| "fl_add (Finite a) PInf = PInf"
| "fl_add (Finite a) MInf = MInf"
| "fl_add PInf MInf = NaN"
| "fl_add PInf b = PInf"
| "fl_add MInf PInf = NaN"
| "fl_add MInf b = MInf"

definition fl_sub :: "pyfloat \<Rightarrow> pyfloat \<Rightarrow> pyfloat" where
  "fl_sub a b = fl_add a (fl_neg b)"

text \<open>The sign of a float as \<open>-1\<close>, \<open>0\<close> or \<open>1\<close>; only used for products with an infinity.\<close>

fun fl_sgn :: "pyfloat \<Rightarrow> real" where
  "fl_sgn (Finite a) = sgn a"
| "fl_sgn PInf = 1"
| "fl_sgn MInf = - 1"
| "fl_sgn NaN = 0"

fun fl_mul :: "pyfloat \<Rightarrow> pyfloat \<Rightarrow> pyfloat" where
  "fl_mul NaN b = NaN"
| "fl_mul a NaN = NaN"
| "fl_mul (Finite a) (Finite b) = Finite (a * b)"
| "fl_mul a b =
     (if fl_sgn a * fl_sgn b = 0 then NaN
      else if 0 < fl_sgn a * fl_sgn b then PInf else MInf)"

text \<open>
  Overflow of a finite result: a real at or beyond \<open>2^1024 - 2^970\<close>, half a step
  above the largest double, rounds to an infinity.  It is applied where a result can
  leave the range of the doubles, in the inverse transform below; the sums and
  products of the sampler's callbacks stay far inside it.
\<close>

definition overflow_bound :: real where
  "overflow_bound = 2 ^ 1024 - 2 ^ 970"

definition fl_round :: "real \<Rightarrow> pyfloat" where
  "fl_round r =
     (if overflow_bound \<le> r then PInf else if r \<le> - overflow_bound then MInf else Finite r)"

text \<open>\<open>a * b\<close> with the overflow of a finite product.\<close>

definition fl_mul_round :: "pyfloat \<Rightarrow> pyfloat \<Rightarrow> pyfloat" where
  "fl_mul_round a b = (case fl_mul a b of Finite r \<Rightarrow> fl_round r | v \<Rightarrow> v)"

text \<open>
  \<open>np.log\<close>: minus infinity at zero and NaN below zero (numpy warns there, it does
  not raise).
\<close>

fun np_log :: "pyfloat \<Rightarrow> pyfloat" where
  "np_log (Finite a) = (if 0 < a then Finite (ln a) else if a = 0 then MInf else NaN)"
| "np_log PInf = PInf"
| "np_log MInf = NaN"
| "np_log NaN = NaN"

section \<open>The Metropolis-Hastings sampler\<close>

text \<open>
  The function of the notebook:
  \<^verbatim>\<open>
  def metropolis_algorithm(rng, chain_start, n, logtarget, candidate_generating_density):
      x = chain_start
      chain = np.zeros(n)
      accepted = 0
      for i in range(n):
          candidate = candidate_generating_density(x)
          if candidate >= 0:
              if np.log(rng.uniform()) < logtarget(candidate) - logtarget(x):
                  x = candidate
                  accepted += 1

          chain[i] = x

      print(f"Acceptance rate {accepted/n}")
      return chain
  \<close>
\<close>

text \<open>
  The local variables of \<open>metropolis_algorithm\<close> together with the world its
  callbacks act on.  The generator \<open>rng\<close>, \<open>logtarget\<close> and
  \<open>candidate_generating_density\<close> are Python callables: each takes the world and
  returns its result with the world it leaves behind, so a closure over the generator
  that is also passed as \<open>rng\<close> shares its state with it.  The callbacks are taken
  to return; an exception of theirs is not modelled.
\<close>

record 'w sampler =
  st_x :: pyfloat
  st_chain :: "pyfloat list"
  st_accepted :: int
  st_world :: 'w

record 'w outcome =
  returned :: "py_error + pyvalue"
  printed :: "message list"
  final_world :: 'w

type_synonym 'w source = "'w \<Rightarrow> pyfloat \<times> 'w"
type_synonym 'w callback = "pyfloat \<Rightarrow> 'w \<Rightarrow> pyfloat \<times> 'w"

text \<open>\<open>x = chain_start; chain = np.zeros(n); accepted = 0\<close>\<close>

definition init_state :: "pyfloat \<Rightarrow> int \<Rightarrow> 'w \<Rightarrow> 'w sampler" where
  "init_state chain_start n w =
     \<lparr>st_x = chain_start, st_chain = replicate (nat n) (Finite 0), st_accepted = 0, st_world = w\<rparr>"

text \<open>
  The body of \<open>for i in range(n)\<close>.  The operands of
  \<open>np.log(rng.uniform()) < logtarget(candidate) - logtarget(x)\<close> are evaluated left
  to right, and only when \<open>candidate >= 0\<close>.  The index of \<open>chain[i] = x\<close> is
  below the length of the chain wherever the loop calls the body.
\<close>

definition loop_body ::
  "'w source \<Rightarrow> 'w callback \<Rightarrow> 'w callback \<Rightarrow> nat \<Rightarrow> 'w sampler \<Rightarrow> 'w sampler" where
  "loop_body rng logtarget cgd i st =
     (let (candidate, w1) = cgd (st_x st) (st_world st);
          st1 =
            (if fl_ge candidate (Finite 0) then
               (let (u, w2) = rng w1;
                    (lc, w3) = logtarget candidate w2;
                    (lx, w4) = logtarget (st_x st) w3
                in if fl_lt (np_log u) (fl_sub lc lx)
                   then st\<lparr>st_x := candidate, st_accepted := st_accepted st + 1, st_world := w4\<rparr>
                   else st\<lparr>st_world := w4\<rparr>)
             else st\<lparr>st_world := w1\<rparr>)
      in st1\<lparr>st_chain := (st_chain st1)[i := st_x st1]\<rparr>)"

text \<open>The first \<open>k\<close> rounds of the loop.\<close>

definition run_loop ::
  "'w source \<Rightarrow> 'w callback \<Rightarrow> 'w callback \<Rightarrow> nat \<Rightarrow> 'w sampler \<Rightarrow> 'w sampler" where
  "run_loop rng logtarget cgd k st = fold (loop_body rng logtarget cgd) [0..<k] st"

text \<open>
  \<open>np.zeros(n)\<close> raises ValueError for a negative \<open>n\<close>; \<open>accepted/n\<close> divides
  two Python integers and raises ZeroDivisionError when \<open>n\<close> is zero, before the
  \<open>return\<close>.
\<close>

definition metropolis_algorithm ::
  "'w source \<Rightarrow> pyfloat \<Rightarrow> int \<Rightarrow> 'w callback \<Rightarrow> 'w callback \<Rightarrow> 'w \<Rightarrow> 'w outcome" where
  "metropolis_algorithm rng chain_start n logtarget cgd w =
     (if n < 0 then \<lparr>returned = Inl ValueError, printed = [], final_world = w\<rparr>
      else
        (let st = run_loop rng logtarget cgd (nat n) (init_state chain_start n w)
         in if n = 0
            then \<lparr>returned = Inl ZeroDivisionError, printed = [], final_world = st_world st\<rparr>
            else \<lparr>returned = Inr (NdArray (st_chain st)),
                  printed = [Acceptance_rate (Finite (real_of_int (st_accepted st) / real_of_int n))],
                  final_world = st_world st\<rparr>))"

text \<open>The candidate of a round and whether the round accepts it, read off the body.\<close>

definition candidate_of :: "'w callback \<Rightarrow> 'w sampler \<Rightarrow> pyfloat" where
  "candidate_of cgd st = fst (cgd (st_x st) (st_world st))"

definition step_accepts ::
  "'w source \<Rightarrow> 'w callback \<Rightarrow> 'w callback \<Rightarrow> 'w sampler \<Rightarrow> bool" where
  "step_accepts rng logtarget cgd st =
     (let (candidate, w1) = cgd (st_x st) (st_world st)
      in fl_ge candidate (Finite 0) \<and>
         (let (u, w2) = rng w1;
              (lc, w3) = logtarget candidate w2;
              (lx, w4) = logtarget (st_x st) w3
          in fl_lt (np_log u) (fl_sub lc lx)))"

subsection \<open>The callbacks of the notebook\<close>

text \<open>\<open>log_exponential = lambda x: np.log(param) - param * x\<close>\<close>

definition log_exponential :: "real \<Rightarrow> pyfloat \<Rightarrow> pyfloat" where
  "log_exponential param x = fl_sub (np_log (Finite param)) (fl_mul (Finite param) x)"

text \<open>
  \<open>candidate_generating_density = lambda x: x + 0.60 * rng.normal()\<close>, over the
  \<open>normal\<close> method of the captured generator.
\<close>

definition candidate_generating_density :: "'w source \<Rightarrow> 'w callback" where
  "candidate_generating_density normal x w =
     (let (z, w') = normal w in (fl_add x (fl_mul (Finite (6 / 10)) z), w'))"

text \<open>A callable without side effects.\<close>

definition pure_fn :: "(pyfloat \<Rightarrow> pyfloat) \<Rightarrow> 'w callback" where
  "pure_fn f x w = (f x, w)"

text \<open>
  A generator whose draws are fixed in advance: the world is the tape of the draws
  still to come, and an exhausted tape keeps giving zero.
\<close>

definition tape_next :: "pyfloat list source" where
  "tape_next w = (case w of [] \<Rightarrow> (Finite 0, []) | d # ds \<Rightarrow> (d, ds))"

subsection \<open>Recording the calls of the log-density\<close>

text \<open>
  To observe where \<open>logtarget\<close> is called, it is wrapped as a test would wrap it: the
  wrapper appends its argument to a log kept beside the world, and the other two
  callbacks act on the world as before and leave the log alone.
\<close>

definition on_world :: "'w source \<Rightarrow> ('w \<times> pyfloat list) source" where
  "on_world src = (\<lambda>(w, calls). let (v, w') = src w in (v, (w', calls)))"

definition logged :: "'w callback \<Rightarrow> ('w \<times> pyfloat list) callback" where
  "logged f x = (\<lambda>(w, calls). let (v, w') = f x w in (v, (w', calls @ [x])))"

text \<open>Forgetting the log.\<close>

definition erase :: "('w \<times> pyfloat list) sampler \<Rightarrow> 'w sampler" where
  "erase st =
     \<lparr>st_x = st_x st, st_chain = st_chain st, st_accepted = st_accepted st,
      st_world = fst (st_world st)\<rparr>"

text \<open>The arguments \<open>logtarget\<close> has been called with so far, oldest first.\<close>

definition calls_of :: "('w \<times> pyfloat list) sampler \<Rightarrow> pyfloat list" where
  "calls_of st = snd (st_world st)"

section \<open>Generators inside closures\<close>

text \<open>
  \<open>rng_lambda\<close> of the notebook on generators and lambdas: the loop of the sampler
  without the accept/reject decision.  \<open>x = 0\<close> is passed to the first call.
  \<^verbatim>\<open>
  def rng_lambda(n, candidate_generating_density):
      x = 0
      chain = np.zeros(n)
      for i in range(n):
          x = candidate_generating_density(x)
          chain[i] = x

      return chain
  \<close>
\<close>

definition rng_lambda_body ::
  "'w callback \<Rightarrow> nat \<Rightarrow> pyfloat \<times> pyfloat list \<times> 'w \<Rightarrow> pyfloat \<times> pyfloat list \<times> 'w" where
  "rng_lambda_body cgd i = (\<lambda>(x, chain, w). let (x', w') = cgd x w in (x', chain[i := x'], w'))"

definition rng_lambda_loop ::
  "'w callback \<Rightarrow> nat \<Rightarrow> pyfloat \<times> pyfloat list \<times> 'w \<Rightarrow> pyfloat \<times> pyfloat list \<times> 'w" where
  "rng_lambda_loop cgd k s = fold (rng_lambda_body cgd) [0..<k] s"

definition rng_lambda :: "int \<Rightarrow> 'w callback \<Rightarrow> 'w \<Rightarrow> (py_error + pyvalue) \<times> 'w" where
  "rng_lambda n cgd w =
     (if n < 0 then (Inl ValueError, w)
      else
        (let (x, chain, w') =
               rng_lambda_loop cgd (nat n) (Finite 0, replicate (nat n) (Finite 0), w)
         in (Inr (NdArray chain), w')))"

text \<open>
  The generator is numpy's: \<open>random_state seed\<close> stands for \<open>RandomState(seed)\<close>, a
  new generator in the state its seed fixes, and \<open>uniform\<close> for its method
  \<open>uniform(low=-1, high=1)\<close>, which returns a draw and the advanced generator.

  \<open>proposal = lambda x: rng.uniform(low=-1, high=1)\<close> captures the one generator
  \<open>rng\<close>, which is the world of the closure.
\<close>

definition proposal :: "'g source \<Rightarrow> 'g callback" where
  "proposal uniform x g = uniform g"

text \<open>
  \<open>density_generator = lambda x: RandomState(1729).uniform(low=-1, high=1)\<close> builds a
  generator on every call, draws once and drops it.
\<close>

definition density_generator :: "(nat \<Rightarrow> 'g) \<Rightarrow> 'g source \<Rightarrow> 'w callback" where
  "density_generator random_state uniform x w = (fst (uniform (random_state 1729)), w)"

text \<open>The generator after \<open>k\<close> draws.\<close>

primrec after_draws :: "'g source \<Rightarrow> nat \<Rightarrow> 'g \<Rightarrow> 'g" where
  "after_draws uniform 0 g = g"
| "after_draws uniform (Suc k) g = snd (uniform (after_draws uniform k g))"

section \<open>The inverse transform method\<close>

text \<open>
  \<open>exponential_rvs = -(1 / param) * np.log(1 - rng_2.rand(chain.size))\<close>, and the
  same expression for \<open>X\<close> and \<open>Y\<close> in the notebook on transformed variables.
  \<open>1 / param\<close> is a division of Python numbers: it raises for zero, before the draws
  are made, and overflows to infinity for a rate too small.  The rest is elementwise
  on the array that \<open>rand\<close> returns; the product can overflow as well.
\<close>

definition exponential_rvs ::
  "real \<Rightarrow> (nat \<Rightarrow> 'w \<Rightarrow> pyfloat list \<times> 'w) \<Rightarrow> nat \<Rightarrow> 'w \<Rightarrow> (py_error + pyvalue) \<times> 'w" where
  "exponential_rvs param rand k w =
     (if param = 0 then (Inl ZeroDivisionError, w)
      else
        (let (us, w') = rand k w
         in (Inr (NdArray (map (\<lambda>u. fl_mul_round (fl_neg (fl_round (1 / param)))
                                      (np_log (fl_sub (Finite 1) u))) us)), w')))"

text \<open>\<open>rand(k)\<close> of a generator whose draws are fixed in advance.\<close>

definition tape_rand :: "nat \<Rightarrow> pyfloat list \<Rightarrow> pyfloat list \<times> pyfloat list" where
  "tape_rand k w = (take k w, drop k w)"

section \<open>Properties of the sampler\<close>

lemma run_loop_0: "run_loop rng logtarget cgd 0 st = st"
  by (simp add: run_loop_def)

lemma run_loop_Suc:
  "run_loop rng logtarget cgd (Suc k) st =
     loop_body rng logtarget cgd k (run_loop rng logtarget cgd k st)"
  by (simp add: run_loop_def)

subsection \<open>One round and the loop\<close>

lemma loop_body_x:
  "st_x (loop_body rng logtarget cgd i st) =
     (if step_accepts rng logtarget cgd st then candidate_of cgd st else st_x st)"
  by (simp add: loop_body_def step_accepts_def candidate_of_def Let_def split: prod.splits)

lemma loop_body_accepted:
  "st_accepted (loop_body rng logtarget cgd i st) =
     st_accepted st + (if step_accepts rng logtarget cgd st then 1 else 0)"
  by (simp add: loop_body_def step_accepts_def Let_def split: prod.splits)

lemma loop_body_chain:
  "st_chain (loop_body rng logtarget cgd i st) =
     (st_chain st)[i := st_x (loop_body rng logtarget cgd i st)]"
  by (simp add: loop_body_def Let_def split: prod.splits)

lemma length_chain_run_loop:
  "length (st_chain (run_loop rng logtarget cgd k st)) = length (st_chain st)"
  by (induction k) (simp_all add: run_loop_0 run_loop_Suc loop_body_chain)

text \<open>Once round \<open>i\<close> has written entry \<open>i\<close>, later rounds leave it alone.\<close>

lemma chain_entry:
  "i < k \<Longrightarrow> k \<le> length (st_chain st) \<Longrightarrow>
     st_chain (run_loop rng logtarget cgd k st) ! i = st_x (run_loop rng logtarget cgd (Suc i) st)"
proof (induction k)
  case 0
  then show ?case by simp
next
  case (Suc k)
  show ?case
  proof (cases "i = k")
    case True
    with Suc.prems show ?thesis
      by (simp add: run_loop_Suc loop_body_chain length_chain_run_loop)
  next
    case False
    with Suc.prems have "i < k" "k \<le> length (st_chain st)" by simp_all
    with Suc.IH False show ?thesis
      by (simp add: run_loop_Suc [of _ _ _ k] loop_body_chain)
  qed
qed

lemma previous_entry:
  "i < k \<Longrightarrow> k \<le> length (st_chain st) \<Longrightarrow>
     (if i = 0 then st_x st else st_chain (run_loop rng logtarget cgd k st) ! (i - 1)) =
       st_x (run_loop rng logtarget cgd i st)"
  by (cases i) (simp_all add: run_loop_0 chain_entry)

text \<open>The counter is the number of rounds that accepted.\<close>

lemma accepted_count:
  "st_accepted (run_loop rng logtarget cgd k st) =
     st_accepted st +
     int (card {i. i < k \<and> step_accepts rng logtarget cgd (run_loop rng logtarget cgd i st)})"
proof (induction k)
  case 0
  then show ?case by (simp add: run_loop_0)
next
  case (Suc k)
  let ?A = "\<lambda>k. {i. i < k \<and> step_accepts rng logtarget cgd (run_loop rng logtarget cgd i st)}"
  have fin: "finite (?A k)" by simp
  have notin: "k \<notin> ?A k" by simp
  show ?case
  proof (cases "step_accepts rng logtarget cgd (run_loop rng logtarget cgd k st)")
    case True
    then have "?A (Suc k) = insert k (?A k)" by (auto simp: less_Suc_eq)
    with fin notin have "card (?A (Suc k)) = Suc (card (?A k))" by simp
    with Suc True show ?thesis by (simp add: run_loop_Suc loop_body_accepted)
  next
    case False
    then have "?A (Suc k) = ?A k" by (auto simp: less_Suc_eq)
    with Suc False show ?thesis by (simp add: run_loop_Suc loop_body_accepted)
  qed
qed

text \<open>Only a non-negative candidate is accepted, so a non-negative state stays so.\<close>

lemma step_accepts_candidate:
  "step_accepts rng logtarget cgd st \<Longrightarrow> fl_ge (candidate_of cgd st) (Finite 0)"
  by (simp add: step_accepts_def candidate_of_def split: prod.splits)

lemma x_in_support:
  "fl_ge (st_x st) (Finite 0) \<Longrightarrow> fl_ge (st_x (run_loop rng logtarget cgd k st)) (Finite 0)"
  by (induction k) (simp_all add: run_loop_0 run_loop_Suc loop_body_x step_accepts_candidate)

lemma returned_chain:
  "1 \<le> n \<Longrightarrow>
     returned (metropolis_algorithm rng chain_start n logtarget cgd w) =
       Inr (NdArray (st_chain (run_loop rng logtarget cgd (nat n) (init_state chain_start n w))))"
  by (simp add: metropolis_algorithm_def Let_def)

subsection \<open>A run of two rounds\<close>

text \<open>
  The notebook's target and proposal with \<open>param = 2\<close>, started at \<open>1 / param\<close>, on a
  generator that gives the normal draw 1, the uniform draw 0 and the normal draw -2:
  the first candidate 1.1 is accepted, the second candidate -0.1 is negative.
\<close>

lemma log_exponential_Finite:
  "0 < param \<Longrightarrow> log_exponential param (Finite a) = Finite (ln param - param * a)"
  by (simp add: log_exponential_def fl_sub_def)

lemma example_step_1:
  "loop_body tape_next (pure_fn (log_exponential 2)) (candidate_generating_density tape_next) 0
     (init_state (Finite (1 / 2)) 2 [Finite 1, Finite 0, Finite (- 2)]) =
   \<lparr>st_x = Finite (11 / 10), st_chain = [Finite (11 / 10), Finite 0], st_accepted = 1,
    st_world = [Finite (- 2)]\<rparr>"
  by (simp add: loop_body_def init_state_def candidate_generating_density_def tape_next_def
      pure_fn_def log_exponential_Finite fl_sub_def numeral_2_eq_2)

lemma example_loop_1:
  "run_loop tape_next (pure_fn (log_exponential 2)) (candidate_generating_density tape_next) (Suc 0)
     (init_state (Finite (1 / 2)) 2 [Finite 1, Finite 0, Finite (- 2)]) =
   \<lparr>st_x = Finite (11 / 10), st_chain = [Finite (11 / 10), Finite 0], st_accepted = 1,
    st_world = [Finite (- 2)]\<rparr>"
  by (simp add: run_loop_Suc run_loop_0 example_step_1)

lemma example_candidate_2:
  "candidate_of (candidate_generating_density tape_next)
     (run_loop tape_next (pure_fn (log_exponential 2)) (candidate_generating_density tape_next) (Suc 0)
        (init_state (Finite (1 / 2)) 2 [Finite 1, Finite 0, Finite (- 2)])) = Finite (- (1 / 10))"
  by (simp add: example_loop_1 candidate_of_def candidate_generating_density_def tape_next_def)

lemma example_step_2:
  "loop_body tape_next (pure_fn (log_exponential 2)) (candidate_generating_density tape_next) (Suc 0)
     \<lparr>st_x = Finite (11 / 10), st_chain = [Finite (11 / 10), Finite 0], st_accepted = 1,
      st_world = [Finite (- 2)]\<rparr> =
   \<lparr>st_x = Finite (11 / 10), st_chain = [Finite (11 / 10), Finite (11 / 10)], st_accepted = 1,
    st_world = []\<rparr>"
  by (simp add: loop_body_def candidate_generating_density_def tape_next_def)

lemma example_rejects_2:
  "\<not> step_accepts tape_next (pure_fn (log_exponential 2)) (candidate_generating_density tape_next)
       (run_loop tape_next (pure_fn (log_exponential 2)) (candidate_generating_density tape_next)
          (Suc 0) (init_state (Finite (1 / 2)) 2 [Finite 1, Finite 0, Finite (- 2)]))"
  using example_candidate_2 step_accepts_candidate
    [of tape_next "pure_fn (log_exponential 2)" "candidate_generating_density tape_next"
      "run_loop tape_next (pure_fn (log_exponential 2)) (candidate_generating_density tape_next)
          (Suc 0) (init_state (Finite (1 / 2)) 2 [Finite 1, Finite 0, Finite (- 2)])"]
  by auto

lemma example_loop:
  "run_loop tape_next (pure_fn (log_exponential 2)) (candidate_generating_density tape_next) 2
     (init_state (Finite (1 / 2)) 2 [Finite 1, Finite 0, Finite (- 2)]) =
   \<lparr>st_x = Finite (11 / 10), st_chain = [Finite (11 / 10), Finite (11 / 10)], st_accepted = 1,
    st_world = []\<rparr>"
  by (simp add: numeral_2_eq_2 run_loop_Suc run_loop_0
      example_step_1 [unfolded numeral_2_eq_2] example_step_2)

lemma example_run:
  "metropolis_algorithm tape_next (Finite (1 / 2)) 2 (pure_fn (log_exponential 2))
       (candidate_generating_density tape_next) [Finite 1, Finite 0, Finite (- 2)] =
   \<lparr>returned = Inr (NdArray [Finite (11 / 10), Finite (11 / 10)]),
    printed = [Acceptance_rate (Finite (1 / 2))], final_world = []\<rparr>"
  using example_loop by (simp add: metropolis_algorithm_def)

subsection \<open>The chain that is returned\<close>

text \<open>
  C1: with \<open>n \<ge> 1\<close> steps the sampler returns a chain of exactly \<open>n\<close> entries; entry
  \<open>i\<close> is the state \<open>x\<close> after round \<open>i + 1\<close> has made its decision; and when that
  round does not accept, entry \<open>i\<close> repeats entry \<open>i - 1\<close>, or the initial state when
  \<open>i = 0\<close>.
\<close>

theorem chain_records_states:
  assumes "1 \<le> n"
  shows "\<exists>chain.
           returned (metropolis_algorithm rng chain_start n logtarget cgd w) = Inr (NdArray chain) \<and>
           length chain = nat n \<and>
           (\<forall>i<nat n. chain ! i =
                st_x (run_loop rng logtarget cgd (Suc i) (init_state chain_start n w))) \<and>
           (\<forall>i<nat n. \<not> step_accepts rng logtarget cgd
                          (run_loop rng logtarget cgd i (init_state chain_start n w)) \<longrightarrow>
                chain ! i = (if i = 0 then chain_start else chain ! (i - 1)))"
proof -
  let ?S = "\<lambda>k. run_loop rng logtarget cgd k (init_state chain_start n w)"
  let ?chain = "st_chain (?S (nat n))"
  have len0: "length (st_chain (init_state chain_start n w)) = nat n"
    by (simp add: init_state_def)
  have x0: "st_x (init_state chain_start n w) = chain_start"
    by (simp add: init_state_def)
  have ret: "returned (metropolis_algorithm rng chain_start n logtarget cgd w) = Inr (NdArray ?chain)"
    using assms by (rule returned_chain)
  have len: "length ?chain = nat n"
    by (simp add: length_chain_run_loop len0)
  have entry: "?chain ! i = st_x (?S (Suc i))" if "i < nat n" for i
    using that by (simp add: chain_entry len0)
  have prev: "(if i = 0 then chain_start else ?chain ! (i - 1)) = st_x (?S i)" if "i < nat n" for i
  proof -
    have "nat n \<le> length (st_chain (init_state chain_start n w))"
      by (simp add: len0)
    from previous_entry [OF that this, of rng logtarget cgd] show ?thesis
      by (simp only: x0)
  qed
  have rej: "?chain ! i = (if i = 0 then chain_start else ?chain ! (i - 1))"
    if "i < nat n" and "\<not> step_accepts rng logtarget cgd (?S i)" for i
    using that entry [of i] prev [of i] by (simp add: run_loop_Suc loop_body_x)
  from ret len entry rej show ?thesis by blast
qed

text \<open>In the run of two rounds the second round does not accept.\<close>

theorem chain_records_states_witness:
  "(1 :: int) \<le> 2 \<and>
   \<not> step_accepts tape_next (pure_fn (log_exponential 2)) (candidate_generating_density tape_next)
       (run_loop tape_next (pure_fn (log_exponential 2)) (candidate_generating_density tape_next)
          (Suc 0) (init_state (Finite (1 / 2)) 2 [Finite 1, Finite 0, Finite (- 2)])) \<and>
   returned (metropolis_algorithm tape_next (Finite (1 / 2)) 2 (pure_fn (log_exponential 2))
       (candidate_generating_density tape_next) [Finite 1, Finite 0, Finite (- 2)]) =
     Inr (NdArray [Finite (11 / 10), Finite (11 / 10)]) \<and>
   (\<exists>chain.
      returned (metropolis_algorithm tape_next (Finite (1 / 2)) 2 (pure_fn (log_exponential 2))
         (candidate_generating_density tape_next) [Finite 1, Finite 0, Finite (- 2)]) =
        Inr (NdArray chain) \<and>
      length chain = nat 2 \<and>
      (\<forall>i<nat 2. chain ! i =
           st_x (run_loop tape_next (pure_fn (log_exponential 2))
                   (candidate_generating_density tape_next) (Suc i)
                   (init_state (Finite (1 / 2)) 2 [Finite 1, Finite 0, Finite (- 2)]))) \<and>
      (\<forall>i<nat 2. \<not> step_accepts tape_next (pure_fn (log_exponential 2))
                     (candidate_generating_density tape_next)
                     (run_loop tape_next (pure_fn (log_exponential 2))
                        (candidate_generating_density tape_next) i
                        (init_state (Finite (1 / 2)) 2 [Finite 1, Finite 0, Finite (- 2)])) \<longrightarrow>
           chain ! i = (if i = 0 then Finite (1 / 2) else chain ! (i - 1))))"
proof (intro conjI)
  show le: "(1 :: int) \<le> 2" by simp
  show "\<not> step_accepts tape_next (pure_fn (log_exponential 2)) (candidate_generating_density tape_next)
       (run_loop tape_next (pure_fn (log_exponential 2)) (candidate_generating_density tape_next)
          (Suc 0) (init_state (Finite (1 / 2)) 2 [Finite 1, Finite 0, Finite (- 2)]))"
    by (rule example_rejects_2)
  show "returned (metropolis_algorithm tape_next (Finite (1 / 2)) 2 (pure_fn (log_exponential 2))
       (candidate_generating_density tape_next) [Finite 1, Finite 0, Finite (- 2)]) =
     Inr (NdArray [Finite (11 / 10), Finite (11 / 10)])"
    by (simp add: example_run)
  show "\<exists>chain.
      returned (metropolis_algorithm tape_next (Finite (1 / 2)) 2 (pure_fn (log_exponential 2))
         (candidate_generating_density tape_next) [Finite 1, Finite 0, Finite (- 2)]) =
        Inr (NdArray chain) \<and>
      length chain = nat 2 \<and>
      (\<forall>i<nat 2. chain ! i =
           st_x (run_loop tape_next (pure_fn (log_exponential 2))
                   (candidate_generating_density tape_next) (Suc i)
                   (init_state (Finite (1 / 2)) 2 [Finite 1, Finite 0, Finite (- 2)]))) \<and>
      (\<forall>i<nat 2. \<not> step_accepts tape_next (pure_fn (log_exponential 2))
                     (candidate_generating_density tape_next)
                     (run_loop tape_next (pure_fn (log_exponential 2))
                        (candidate_generating_density tape_next) i
                        (init_state (Finite (1 / 2)) 2 [Finite 1, Finite 0, Finite (- 2)])) \<longrightarrow>
           chain ! i = (if i = 0 then Finite (1 / 2) else chain ! (i - 1)))"
    using le by (rule chain_records_states)
qed

subsection \<open>No steps at all\<close>

text \<open>
  C3: with \<open>n = 0\<close> the loop does not run and the chain is empty, but
  \<open>accepted/n\<close> is \<open>0/0\<close> on Python integers: the call ends in ZeroDivisionError and
  returns no chain.
\<close>

theorem zero_steps_divide_by_zero:
  "metropolis_algorithm rng chain_start 0 logtarget cgd w =
     \<lparr>returned = Inl ZeroDivisionError, printed = [], final_world = w\<rparr>"
  by (simp add: metropolis_algorithm_def run_loop_0 init_state_def)

subsection \<open>The acceptance rate\<close>

text \<open>
  C4, as the code has it: with \<open>n \<ge> 1\<close> steps the sampler returns the chain of
  length \<open>n\<close> and nothing else; the acceptance rate is printed, and it is the number
  of rounds that accepted their candidate divided by \<open>n\<close>.
\<close>

theorem chain_returned_rate_printed:
  assumes "1 \<le> n"
  shows "\<exists>chain.
           returned (metropolis_algorithm rng chain_start n logtarget cgd w) = Inr (NdArray chain) \<and>
           length chain = nat n \<and>
           printed (metropolis_algorithm rng chain_start n logtarget cgd w) =
             [Acceptance_rate (Finite
                (real (card {i. i < nat n \<and> step_accepts rng logtarget cgd
                                 (run_loop rng logtarget cgd i (init_state chain_start n w))})
                 / real_of_int n))]"
proof -
  let ?st0 = "init_state chain_start n w"
  have acc: "st_accepted (run_loop rng logtarget cgd (nat n) ?st0) =
      int (card {i. i < nat n \<and> step_accepts rng logtarget cgd (run_loop rng logtarget cgd i ?st0)})"
    using accepted_count [of rng logtarget cgd "nat n" ?st0] by (simp add: init_state_def)
  have len: "length (st_chain (run_loop rng logtarget cgd (nat n) ?st0)) = nat n"
    by (simp add: length_chain_run_loop init_state_def)
  have pr: "printed (metropolis_algorithm rng chain_start n logtarget cgd w) =
      [Acceptance_rate (Finite (real_of_int (st_accepted (run_loop rng logtarget cgd (nat n) ?st0))
         / real_of_int n))]"
    using assms by (simp add: metropolis_algorithm_def Let_def)
  have ret: "returned (metropolis_algorithm rng chain_start n logtarget cgd w) =
      Inr (NdArray (st_chain (run_loop rng logtarget cgd (nat n) ?st0)))"
    using assms by (rule returned_chain)
  show ?thesis
    unfolding ret pr acc using len by simp
qed

text \<open>In the run of two rounds one candidate of two is accepted.\<close>

theorem chain_returned_rate_printed_witness:
  "(1 :: int) \<le> 2 \<and>
   printed (metropolis_algorithm tape_next (Finite (1 / 2)) 2 (pure_fn (log_exponential 2))
       (candidate_generating_density tape_next) [Finite 1, Finite 0, Finite (- 2)]) =
     [Acceptance_rate (Finite (1 / 2))] \<and>
   (\<exists>chain.
      returned (metropolis_algorithm tape_next (Finite (1 / 2)) 2 (pure_fn (log_exponential 2))
         (candidate_generating_density tape_next) [Finite 1, Finite 0, Finite (- 2)]) =
        Inr (NdArray chain) \<and>
      length chain = nat 2 \<and>
      printed (metropolis_algorithm tape_next (Finite (1 / 2)) 2 (pure_fn (log_exponential 2))
         (candidate_generating_density tape_next) [Finite 1, Finite 0, Finite (- 2)]) =
        [Acceptance_rate (Finite
           (real (card {i. i < nat 2 \<and> step_accepts tape_next (pure_fn (log_exponential 2))
                     (candidate_generating_density tape_next)
                     (run_loop tape_next (pure_fn (log_exponential 2))
                        (candidate_generating_density tape_next) i
                        (init_state (Finite (1 / 2)) 2 [Finite 1, Finite 0, Finite (- 2)]))})
            / real_of_int 2))])"
proof (intro conjI)
  show le: "(1 :: int) \<le> 2" by simp
  show "printed (metropolis_algorithm tape_next (Finite (1 / 2)) 2 (pure_fn (log_exponential 2))
       (candidate_generating_density tape_next) [Finite 1, Finite 0, Finite (- 2)]) =
     [Acceptance_rate (Finite (1 / 2))]"
    by (simp add: example_run)
  show "\<exists>chain.
      returned (metropolis_algorithm tape_next (Finite (1 / 2)) 2 (pure_fn (log_exponential 2))
         (candidate_generating_density tape_next) [Finite 1, Finite 0, Finite (- 2)]) =
        Inr (NdArray chain) \<and>
      length chain = nat 2 \<and>
      printed (metropolis_algorithm tape_next (Finite (1 / 2)) 2 (pure_fn (log_exponential 2))
         (candidate_generating_density tape_next) [Finite 1, Finite 0, Finite (- 2)]) =
        [Acceptance_rate (Finite
           (real (card {i. i < nat 2 \<and> step_accepts tape_next (pure_fn (log_exponential 2))
                     (candidate_generating_density tape_next)
                     (run_loop tape_next (pure_fn (log_exponential 2))
                        (candidate_generating_density tape_next) i
                        (init_state (Finite (1 / 2)) 2 [Finite 1, Finite 0, Finite (- 2)]))})
            / real_of_int 2))]"
    using le by (rule chain_returned_rate_printed)
qed

text \<open>
  The spec has the rate returned together with the chain.  In the run of two rounds
  the value returned is the array alone, not the pair of the array and the rate 1/2;
  the rate is on the output.
\<close>

theorem rate_not_returned_counterexample:
  "returned (metropolis_algorithm tape_next (Finite (1 / 2)) 2 (pure_fn (log_exponential 2))
       (candidate_generating_density tape_next) [Finite 1, Finite 0, Finite (- 2)]) =
     Inr (NdArray [Finite (11 / 10), Finite (11 / 10)]) \<and>
   returned (metropolis_algorithm tape_next (Finite (1 / 2)) 2 (pure_fn (log_exponential 2))
       (candidate_generating_density tape_next) [Finite 1, Finite 0, Finite (- 2)]) \<noteq>
     Inr (PyTuple [NdArray [Finite (11 / 10), Finite (11 / 10)], PyFloat (Finite (1 / 2))]) \<and>
   printed (metropolis_algorithm tape_next (Finite (1 / 2)) 2 (pure_fn (log_exponential 2))
       (candidate_generating_density tape_next) [Finite 1, Finite 0, Finite (- 2)]) =
     [Acceptance_rate (Finite (1 / 2))]"
  by (simp add: example_run)

subsection \<open>Invalid step counts\<close>

text \<open>
  C7: a negative number of steps fails with ValueError, the invalid-argument error of
  \<open>np.zeros\<close>; nothing is returned or printed and no callback has run.
\<close>

theorem negative_steps_fail:
  assumes "n < 0"
  shows "metropolis_algorithm rng chain_start n logtarget cgd w =
           \<lparr>returned = Inl ValueError, printed = [], final_world = w\<rparr>"
  using assms by (simp add: metropolis_algorithm_def)

theorem negative_steps_fail_witness:
  "(- 3 :: int) < 0 \<and>
   metropolis_algorithm tape_next (Finite (1 / 2)) (- 3) (pure_fn (log_exponential 2))
       (candidate_generating_density tape_next) [Finite 1, Finite 0] =
     \<lparr>returned = Inl ValueError, printed = [], final_world = [Finite 1, Finite 0]\<rparr>"
  using negative_steps_fail [of "- 3" tape_next "Finite (1 / 2)" "pure_fn (log_exponential 2)"
      "candidate_generating_density tape_next" "[Finite 1, Finite 0]"]
  by simp

subsection \<open>Candidates outside the support\<close>

text \<open>
  C6: with \<open>n \<ge> 1\<close> steps every entry of the chain is non-negative or repeats
  the entry before it (the initial state for entry 0).  A candidate that fails
  \<open>candidate >= 0\<close> does not appear at the index of its round: the entry there is
  the previous state, kept, and for an initial state in the support, as the spec
  requires of the initial state, that entry differs from the candidate.
\<close>

theorem chain_in_support_or_repeat:
  assumes "1 \<le> n"
  shows "\<exists>chain.
     returned (metropolis_algorithm rng chain_start n logtarget cgd w) = Inr (NdArray chain) \<and>
     (\<forall>i<nat n.
        (fl_ge (chain ! i) (Finite 0) \<or>
         chain ! i = (if i = 0 then chain_start else chain ! (i - 1))) \<and>
        (\<not> fl_ge (candidate_of cgd (run_loop rng logtarget cgd i (init_state chain_start n w)))
              (Finite 0) \<longrightarrow>
           chain ! i = (if i = 0 then chain_start else chain ! (i - 1)) \<and>
           (fl_ge chain_start (Finite 0) \<longrightarrow>
              chain ! i \<noteq>
                candidate_of cgd (run_loop rng logtarget cgd i (init_state chain_start n w)))))"
proof -
  let ?st0 = "init_state chain_start n w"
  let ?S = "\<lambda>k. run_loop rng logtarget cgd k ?st0"
  let ?chain = "st_chain (?S (nat n))"
  let ?prev = "\<lambda>i. if i = 0 then chain_start else ?chain ! (i - 1)"
  have len0: "nat n \<le> length (st_chain ?st0)"
    by (simp add: init_state_def)
  have x0: "st_x ?st0 = chain_start"
    by (simp add: init_state_def)
  have ret: "returned (metropolis_algorithm rng chain_start n logtarget cgd w) = Inr (NdArray ?chain)"
    using assms by (rule returned_chain)
  have entry: "?chain ! i = (if step_accepts rng logtarget cgd (?S i)
                             then candidate_of cgd (?S i) else st_x (?S i))"
    if "i < nat n" for i
    using that len0 by (simp add: chain_entry run_loop_Suc loop_body_x)
  have prev: "?prev i = st_x (?S i)" if "i < nat n" for i
    using previous_entry [OF that len0, of rng logtarget cgd] by (simp only: x0)
  have a: "fl_ge (?chain ! i) (Finite 0) \<or> ?chain ! i = ?prev i" if "i < nat n" for i
    using entry [OF that] prev [OF that] step_accepts_candidate [of rng logtarget cgd "?S i"]
    by (cases "step_accepts rng logtarget cgd (?S i)") simp_all
  have b: "?chain ! i = ?prev i"
    if "i < nat n" and "\<not> fl_ge (candidate_of cgd (?S i)) (Finite 0)" for i
    using entry [OF that(1)] prev [OF that(1)] that(2)
      step_accepts_candidate [of rng logtarget cgd "?S i"]
    by (cases "step_accepts rng logtarget cgd (?S i)") simp_all
  have c: "?chain ! i \<noteq> candidate_of cgd (?S i)"
    if "i < nat n" and "\<not> fl_ge (candidate_of cgd (?S i)) (Finite 0)"
      and "fl_ge chain_start (Finite 0)" for i
  proof -
    have "fl_ge (st_x (?S i)) (Finite 0)"
      using that(3) by (intro x_in_support) (simp add: x0)
    moreover have "?chain ! i = st_x (?S i)"
      using b [OF that(1,2)] prev [OF that(1)] by simp
    ultimately show ?thesis using that(2) by auto
  qed
  from a b c have "\<forall>i<nat n.
        (fl_ge (?chain ! i) (Finite 0) \<or> ?chain ! i = ?prev i) \<and>
        (\<not> fl_ge (candidate_of cgd (?S i)) (Finite 0) \<longrightarrow>
           ?chain ! i = ?prev i \<and>
           (fl_ge chain_start (Finite 0) \<longrightarrow> ?chain ! i \<noteq> candidate_of cgd (?S i)))"
    by blast
  with ret show ?thesis by blast
qed

text \<open>
  In the run of two rounds the second candidate, -0.1, fails the check, and the
  initial state 0.5 passes it.
\<close>

theorem chain_in_support_or_repeat_witness:
  "(1 :: int) \<le> 2 \<and>
   fl_ge (Finite (1 / 2)) (Finite 0) \<and>
   \<not> fl_ge (candidate_of (candidate_generating_density tape_next)
            (run_loop tape_next (pure_fn (log_exponential 2))
               (candidate_generating_density tape_next) (Suc 0)
               (init_state (Finite (1 / 2)) 2 [Finite 1, Finite 0, Finite (- 2)]))) (Finite 0) \<and>
   (\<exists>chain.
      returned (metropolis_algorithm tape_next (Finite (1 / 2)) 2 (pure_fn (log_exponential 2))
         (candidate_generating_density tape_next) [Finite 1, Finite 0, Finite (- 2)]) =
        Inr (NdArray chain) \<and>
      (\<forall>i<nat 2.
         (fl_ge (chain ! i) (Finite 0) \<or>
          chain ! i = (if i = 0 then Finite (1 / 2) else chain ! (i - 1))) \<and>
         (\<not> fl_ge (candidate_of (candidate_generating_density tape_next)
                  (run_loop tape_next (pure_fn (log_exponential 2))
                     (candidate_generating_density tape_next) i
                     (init_state (Finite (1 / 2)) 2 [Finite 1, Finite 0, Finite (- 2)])))
               (Finite 0) \<longrightarrow>
            chain ! i = (if i = 0 then Finite (1 / 2) else chain ! (i - 1)) \<and>
            (fl_ge (Finite (1 / 2)) (Finite 0) \<longrightarrow>
               chain ! i \<noteq>
                 candidate_of (candidate_generating_density tape_next)
                   (run_loop tape_next (pure_fn (log_exponential 2))
                      (candidate_generating_density tape_next) i
                      (init_state (Finite (1 / 2)) 2 [Finite 1, Finite 0, Finite (- 2)]))))))"
proof (intro conjI)
  show le: "(1 :: int) \<le> 2" by simp
  show "fl_ge (Finite (1 / 2)) (Finite 0)" by simp
  show "\<not> fl_ge (candidate_of (candidate_generating_density tape_next)
            (run_loop tape_next (pure_fn (log_exponential 2))
               (candidate_generating_density tape_next) (Suc 0)
               (init_state (Finite (1 / 2)) 2 [Finite 1, Finite 0, Finite (- 2)]))) (Finite 0)"
    by (simp add: example_candidate_2)
  show "\<exists>chain.
      returned (metropolis_algorithm tape_next (Finite (1 / 2)) 2 (pure_fn (log_exponential 2))
         (candidate_generating_density tape_next) [Finite 1, Finite 0, Finite (- 2)]) =
        Inr (NdArray chain) \<and>
      (\<forall>i<nat 2.
         (fl_ge (chain ! i) (Finite 0) \<or>
          chain ! i = (if i = 0 then Finite (1 / 2) else chain ! (i - 1))) \<and>
         (\<not> fl_ge (candidate_of (candidate_generating_density tape_next)
                  (run_loop tape_next (pure_fn (log_exponential 2))
                     (candidate_generating_density tape_next) i
                     (init_state (Finite (1 / 2)) 2 [Finite 1, Finite 0, Finite (- 2)])))
               (Finite 0) \<longrightarrow>
            chain ! i = (if i = 0 then Finite (1 / 2) else chain ! (i - 1)) \<and>
            (fl_ge (Finite (1 / 2)) (Finite 0) \<longrightarrow>
               chain ! i \<noteq>
                 candidate_of (candidate_generating_density tape_next)
                   (run_loop tape_next (pure_fn (log_exponential 2))
                      (candidate_generating_density tape_next) i
                      (init_state (Finite (1 / 2)) 2 [Finite 1, Finite 0, Finite (- 2)])))))"
    using le by (rule chain_in_support_or_repeat)
qed

subsection \<open>A uniform draw of zero\<close>

text \<open>
  C2, as the code has it: in a round whose candidate is non-negative and whose uniform
  draw is exactly 0, \<open>np.log\<close> gives minus infinity, which is below every finite
  \<open>logtarget(candidate) - logtarget(x)\<close>: the round accepts.  The state becomes the
  candidate, the counter goes up by one, and the candidate is written to the chain.
  Nothing is raised; the round is a value of the model like any other.
\<close>

theorem zero_uniform_accepts:
  assumes "cgd (st_x st) (st_world st) = (candidate, w1)"
    and "fl_ge candidate (Finite 0)"
    and "rng w1 = (Finite 0, w2)"
    and "logtarget candidate w2 = (lc, w3)"
    and "logtarget (st_x st) w3 = (lx, w4)"
    and "fl_sub lc lx = Finite r"
  shows "np_log (Finite 0) = MInf \<and>
         fl_lt (np_log (Finite 0)) (fl_sub lc lx) \<and>
         loop_body rng logtarget cgd i st =
           st\<lparr>st_x := candidate, st_accepted := st_accepted st + 1, st_world := w4,
              st_chain := (st_chain st)[i := candidate]\<rparr>"
  using assms by (simp add: loop_body_def)

theorem zero_uniform_accepts_witness:
  "candidate_generating_density tape_next
       (st_x (init_state (Finite (1 / 2)) 2 [Finite 1, Finite 0, Finite (- 2)]))
       (st_world (init_state (Finite (1 / 2)) 2 [Finite 1, Finite 0, Finite (- 2)])) =
     (Finite (11 / 10), [Finite 0, Finite (- 2)]) \<and>
   fl_ge (Finite (11 / 10)) (Finite 0) \<and>
   tape_next [Finite 0, Finite (- 2)] = (Finite 0, [Finite (- 2)]) \<and>
   pure_fn (log_exponential 2) (Finite (11 / 10)) [Finite (- 2)] =
     (Finite (ln 2 - 11 / 5), [Finite (- 2)]) \<and>
   pure_fn (log_exponential 2)
       (st_x (init_state (Finite (1 / 2)) 2 [Finite 1, Finite 0, Finite (- 2)])) [Finite (- 2)] =
     (Finite (ln 2 - 1), [Finite (- 2)]) \<and>
   fl_sub (Finite (ln 2 - 11 / 5)) (Finite (ln 2 - 1)) = Finite (- (6 / 5)) \<and>
   loop_body tape_next (pure_fn (log_exponential 2)) (candidate_generating_density tape_next) 0
       (init_state (Finite (1 / 2)) 2 [Finite 1, Finite 0, Finite (- 2)]) =
     (init_state (Finite (1 / 2)) 2 [Finite 1, Finite 0, Finite (- 2)])
       \<lparr>st_x := Finite (11 / 10),
        st_accepted := st_accepted (init_state (Finite (1 / 2)) 2 [Finite 1, Finite 0, Finite (- 2)]) + 1,
        st_world := [Finite (- 2)],
        st_chain := (st_chain (init_state (Finite (1 / 2)) 2 [Finite 1, Finite 0, Finite (- 2)]))
                      [0 := Finite (11 / 10)]\<rparr>"
proof -
  let ?st = "init_state (Finite (1 / 2)) 2 [Finite 1, Finite 0, Finite (- 2)]"
  have h1: "candidate_generating_density tape_next (st_x ?st) (st_world ?st) =
      (Finite (11 / 10), [Finite 0, Finite (- 2)])"
    by (simp add: candidate_generating_density_def tape_next_def init_state_def)
  have h2: "fl_ge (Finite (11 / 10)) (Finite 0)" by simp
  have h3: "tape_next [Finite 0, Finite (- 2)] = (Finite 0, [Finite (- 2)])"
    by (simp add: tape_next_def)
  have h4: "pure_fn (log_exponential 2) (Finite (11 / 10)) [Finite (- 2)] =
      (Finite (ln 2 - 11 / 5), [Finite (- 2)])"
    by (simp add: pure_fn_def log_exponential_Finite)
  have h5: "pure_fn (log_exponential 2) (st_x ?st) [Finite (- 2)] =
      (Finite (ln 2 - 1), [Finite (- 2)])"
    by (simp add: pure_fn_def log_exponential_Finite init_state_def)
  have h6: "fl_sub (Finite (ln 2 - 11 / 5)) (Finite (ln 2 - 1)) = Finite (- (6 / 5))"
    by (simp add: fl_sub_def)
  from zero_uniform_accepts [where cgd = "candidate_generating_density tape_next" and st = ?st
      and rng = tape_next and logtarget = "pure_fn (log_exponential 2)" and i = 0,
      OF h1 h2 h3 h4 h5 h6] h1 h2 h3 h4 h5 h6
  show ?thesis by simp
qed

text \<open>
  The spec has such a round reject.  In the first round of the run of two rounds the
  uniform draw is 0 and the difference of the log-densities is -1.2; the state moves
  from 0.5 to the candidate 1.1 and the counter from 0 to 1.
\<close>

theorem zero_uniform_rejects_counterexample:
  "candidate_of (candidate_generating_density tape_next)
       (init_state (Finite (1 / 2)) 2 [Finite 1, Finite 0, Finite (- 2)]) = Finite (11 / 10) \<and>
   tape_next [Finite 0, Finite (- 2)] = (Finite 0, [Finite (- 2)]) \<and>
   fl_sub (log_exponential 2 (Finite (11 / 10))) (log_exponential 2 (Finite (1 / 2))) =
     Finite (- (6 / 5)) \<and>
   st_x (init_state (Finite (1 / 2)) 2 [Finite 1, Finite 0, Finite (- 2)]) = Finite (1 / 2) \<and>
   st_x (loop_body tape_next (pure_fn (log_exponential 2)) (candidate_generating_density tape_next) 0
          (init_state (Finite (1 / 2)) 2 [Finite 1, Finite 0, Finite (- 2)])) = Finite (11 / 10) \<and>
   st_accepted (init_state (Finite (1 / 2)) 2 [Finite 1, Finite 0, Finite (- 2)]) = 0 \<and>
   st_accepted (loop_body tape_next (pure_fn (log_exponential 2)) (candidate_generating_density tape_next) 0
          (init_state (Finite (1 / 2)) 2 [Finite 1, Finite 0, Finite (- 2)])) = 1"
proof -
  let ?st = "init_state (Finite (1 / 2)) 2 [Finite 1, Finite 0, Finite (- 2)]"
  have "candidate_of (candidate_generating_density tape_next) ?st = Finite (11 / 10)"
    by (simp add: candidate_of_def candidate_generating_density_def tape_next_def init_state_def)
  moreover have "tape_next [Finite 0, Finite (- 2)] = (Finite 0, [Finite (- 2)])"
    by (simp add: tape_next_def)
  moreover have "fl_sub (log_exponential 2 (Finite (11 / 10))) (log_exponential 2 (Finite (1 / 2))) =
      Finite (- (6 / 5))"
    by (simp add: log_exponential_Finite fl_sub_def)
  moreover have "st_x ?st = Finite (1 / 2)" "st_accepted ?st = 0"
    by (simp_all add: init_state_def)
  moreover have "st_x (loop_body tape_next (pure_fn (log_exponential 2))
      (candidate_generating_density tape_next) 0 ?st) = Finite (11 / 10)"
    "st_accepted (loop_body tape_next (pure_fn (log_exponential 2))
      (candidate_generating_density tape_next) 0 ?st) = 1"
    by (simp_all add: example_step_1)
  ultimately show ?thesis by (intro conjI)
qed

subsection \<open>Where the log-density is called\<close>

text \<open>Recording the calls does not change the run.\<close>

lemma erase_loop_body:
  "erase (loop_body (on_world rng) (logged logtarget) (\<lambda>x. on_world (cgd x)) i st) =
     loop_body rng logtarget cgd i (erase st)"
  by (simp add: loop_body_def erase_def on_world_def logged_def Let_def split: prod.splits)

lemma erase_run_loop:
  "erase (run_loop (on_world rng) (logged logtarget) (\<lambda>x. on_world (cgd x)) k st) =
     run_loop rng logtarget cgd k (erase st)"
  by (induction k) (simp_all add: run_loop_0 run_loop_Suc erase_loop_body)

lemma logged_run_same_outcome:
  "returned (metropolis_algorithm (on_world rng) chain_start n (logged logtarget)
       (\<lambda>x. on_world (cgd x)) (w, [])) =
     returned (metropolis_algorithm rng chain_start n logtarget cgd w) \<and>
   printed (metropolis_algorithm (on_world rng) chain_start n (logged logtarget)
       (\<lambda>x. on_world (cgd x)) (w, [])) =
     printed (metropolis_algorithm rng chain_start n logtarget cgd w) \<and>
   fst (final_world (metropolis_algorithm (on_world rng) chain_start n (logged logtarget)
       (\<lambda>x. on_world (cgd x)) (w, []))) =
     final_world (metropolis_algorithm rng chain_start n logtarget cgd w)"
proof -
  let ?L = "run_loop (on_world rng) (logged logtarget) (\<lambda>x. on_world (cgd x)) (nat n)
      (init_state chain_start n (w, []))"
  have "erase (init_state chain_start n (w, [])) = init_state chain_start n w"
    by (simp add: erase_def init_state_def)
  with erase_run_loop [of rng logtarget cgd "nat n" "init_state chain_start n (w, [])"]
  have e: "erase ?L = run_loop rng logtarget cgd (nat n) (init_state chain_start n w)"
    by simp
  have "st_chain ?L = st_chain (erase ?L)" "st_accepted ?L = st_accepted (erase ?L)"
    "fst (st_world ?L) = st_world (erase ?L)"
    by (simp_all add: erase_def)
  then have "st_chain ?L = st_chain (run_loop rng logtarget cgd (nat n) (init_state chain_start n w))"
    and "st_accepted ?L = st_accepted (run_loop rng logtarget cgd (nat n) (init_state chain_start n w))"
    and "fst (st_world ?L) = st_world (run_loop rng logtarget cgd (nat n) (init_state chain_start n w))"
    by (simp_all only: e)
  then show ?thesis
    by (cases "n = 0") (simp_all add: metropolis_algorithm_def Let_def run_loop_0 init_state_def)
qed

text \<open>
  A round calls \<open>logtarget\<close> twice, at the candidate and then at the current state,
  when the candidate is non-negative, and not at all otherwise.
\<close>

lemma calls_loop_body:
  "calls_of (loop_body (on_world rng) (logged logtarget) (\<lambda>x. on_world (cgd x)) i st) =
     (if fl_ge (candidate_of (\<lambda>x. on_world (cgd x)) st) (Finite 0)
      then calls_of st @ [candidate_of (\<lambda>x. on_world (cgd x)) st, st_x st]
      else calls_of st)"
  by (simp add: loop_body_def calls_of_def candidate_of_def on_world_def logged_def Let_def
      split: prod.splits)

lemma calls_in_support_step:
  assumes "fl_ge (st_x st) (Finite 0)" and "\<forall>a\<in>set (calls_of st). fl_ge a (Finite 0)"
  shows "\<forall>a\<in>set (calls_of (loop_body (on_world rng) (logged logtarget) (\<lambda>x. on_world (cgd x)) i st)).
           fl_ge a (Finite 0)"
  using assms by (simp add: calls_loop_body)

lemma calls_in_support_loop:
  assumes "fl_ge (st_x st) (Finite 0)" and "\<forall>a\<in>set (calls_of st). fl_ge a (Finite 0)"
  shows "fl_ge (st_x (run_loop (on_world rng) (logged logtarget) (\<lambda>x. on_world (cgd x)) k st))
           (Finite 0) \<and>
         (\<forall>a\<in>set (calls_of (run_loop (on_world rng) (logged logtarget) (\<lambda>x. on_world (cgd x)) k st)).
           fl_ge a (Finite 0))"
proof (induction k)
  case 0
  from assms show ?case by (simp add: run_loop_0)
next
  case (Suc k)
  let ?S = "run_loop (on_world rng) (logged logtarget) (\<lambda>x. on_world (cgd x)) k st"
  from Suc have x: "fl_ge (st_x ?S) (Finite 0)"
    and calls: "\<forall>a\<in>set (calls_of ?S). fl_ge a (Finite 0)"
    by simp_all
  from x have "fl_ge (st_x (loop_body (on_world rng) (logged logtarget) (\<lambda>x. on_world (cgd x)) k ?S))
      (Finite 0)"
    by (simp add: loop_body_x step_accepts_candidate)
  with calls_in_support_step [OF x calls] show ?case
    by (simp add: run_loop_Suc)
qed

lemma final_world_loop:
  "0 \<le> n \<Longrightarrow> final_world (metropolis_algorithm rng chain_start n logtarget cgd w) =
     st_world (run_loop rng logtarget cgd (nat n) (init_state chain_start n w))"
  by (simp add: metropolis_algorithm_def Let_def)

text \<open>
  C5: in a run whose initial state is in the support, as the spec requires of the
  initial state, every argument \<open>logtarget\<close> is called with is non-negative; and
  in any round whose candidate fails \<open>candidate >= 0\<close>, \<open>logtarget\<close> is not
  called at all, the state stays and the counter stays.
\<close>

theorem logtarget_called_in_support:
  "(fl_ge chain_start (Finite 0) \<longrightarrow>
      (\<forall>a\<in>set (snd (final_world (metropolis_algorithm (on_world rng) chain_start n
                       (logged logtarget) (\<lambda>x. on_world (cgd x)) (w, [])))).
         fl_ge a (Finite 0))) \<and>
   (\<not> fl_ge (candidate_of (\<lambda>x. on_world (cgd x)) st) (Finite 0) \<longrightarrow>
      calls_of (loop_body (on_world rng) (logged logtarget) (\<lambda>x. on_world (cgd x)) i st) =
        calls_of st \<and>
      st_x (loop_body (on_world rng) (logged logtarget) (\<lambda>x. on_world (cgd x)) i st) = st_x st \<and>
      st_accepted (loop_body (on_world rng) (logged logtarget) (\<lambda>x. on_world (cgd x)) i st) =
        st_accepted st)"
proof (intro conjI impI)
  assume start: "fl_ge chain_start (Finite 0)"
  show "\<forall>a\<in>set (snd (final_world (metropolis_algorithm (on_world rng) chain_start n
                       (logged logtarget) (\<lambda>x. on_world (cgd x)) (w, [])))).
         fl_ge a (Finite 0)"
  proof (cases "0 \<le> n")
    case True
    let ?st0 = "init_state chain_start n (w, [])"
    have "fl_ge (st_x ?st0) (Finite 0)" "\<forall>a\<in>set (calls_of ?st0). fl_ge a (Finite 0)"
      using start by (simp_all add: init_state_def calls_of_def)
    from calls_in_support_loop [OF this, of rng logtarget cgd "nat n"] True
    show ?thesis by (simp add: final_world_loop calls_of_def)
  next
    case False
    then show ?thesis by (simp add: metropolis_algorithm_def)
  qed
next
  assume "\<not> fl_ge (candidate_of (\<lambda>x. on_world (cgd x)) st) (Finite 0)"
  then show "calls_of (loop_body (on_world rng) (logged logtarget) (\<lambda>x. on_world (cgd x)) i st) =
        calls_of st"
    by (simp add: calls_loop_body)
next
  assume "\<not> fl_ge (candidate_of (\<lambda>x. on_world (cgd x)) st) (Finite 0)"
  then have "\<not> step_accepts (on_world rng) (logged logtarget) (\<lambda>x. on_world (cgd x)) st"
    using step_accepts_candidate by blast
  then show "st_x (loop_body (on_world rng) (logged logtarget) (\<lambda>x. on_world (cgd x)) i st) = st_x st"
    by (simp add: loop_body_x)
next
  assume "\<not> fl_ge (candidate_of (\<lambda>x. on_world (cgd x)) st) (Finite 0)"
  then have "\<not> step_accepts (on_world rng) (logged logtarget) (\<lambda>x. on_world (cgd x)) st"
    using step_accepts_candidate by blast
  then show "st_accepted (loop_body (on_world rng) (logged logtarget) (\<lambda>x. on_world (cgd x)) i st) =
        st_accepted st"
    by (simp add: loop_body_accepted)
qed

text \<open>
  The run of two rounds with the calls recorded: the first round calls \<open>logtarget\<close>
  at 1.1 and at 0.5, the second, whose candidate is -0.1, does not call it.
\<close>

lemma example_calls:
  "snd (final_world (metropolis_algorithm (on_world tape_next) (Finite (1 / 2)) 2
          (logged (pure_fn (log_exponential 2)))
          (\<lambda>x. on_world (candidate_generating_density tape_next x))
          ([Finite 1, Finite 0, Finite (- 2)], []))) = [Finite (11 / 10), Finite (1 / 2)]"
  by (simp add: metropolis_algorithm_def run_loop_def loop_body_def init_state_def on_world_def
      logged_def pure_fn_def candidate_generating_density_def tape_next_def
      log_exponential_Finite fl_sub_def numeral_2_eq_2)

theorem logtarget_called_in_support_witness:
  "fl_ge (Finite (1 / 2)) (Finite 0) \<and>
   snd (final_world (metropolis_algorithm (on_world tape_next) (Finite (1 / 2)) 2
          (logged (pure_fn (log_exponential 2)))
          (\<lambda>x. on_world (candidate_generating_density tape_next x))
          ([Finite 1, Finite 0, Finite (- 2)], []))) = [Finite (11 / 10), Finite (1 / 2)] \<and>
   list_all (\<lambda>a. fl_ge a (Finite 0))
     (snd (final_world (metropolis_algorithm (on_world tape_next) (Finite (1 / 2)) 2
          (logged (pure_fn (log_exponential 2)))
          (\<lambda>x. on_world (candidate_generating_density tape_next x))
          ([Finite 1, Finite 0, Finite (- 2)], [])))) \<and>
   \<not> fl_ge (candidate_of (\<lambda>x. on_world (candidate_generating_density tape_next x))
            \<lparr>st_x = Finite (11 / 10), st_chain = [Finite (11 / 10), Finite 0], st_accepted = 1,
             st_world = ([Finite (- 2)], [Finite (11 / 10), Finite (1 / 2)])\<rparr>) (Finite 0) \<and>
   calls_of (loop_body (on_world tape_next) (logged (pure_fn (log_exponential 2)))
              (\<lambda>x. on_world (candidate_generating_density tape_next x)) (Suc 0)
              \<lparr>st_x = Finite (11 / 10), st_chain = [Finite (11 / 10), Finite 0], st_accepted = 1,
               st_world = ([Finite (- 2)], [Finite (11 / 10), Finite (1 / 2)])\<rparr>) =
     [Finite (11 / 10), Finite (1 / 2)] \<and>
   st_x (loop_body (on_world tape_next) (logged (pure_fn (log_exponential 2)))
              (\<lambda>x. on_world (candidate_generating_density tape_next x)) (Suc 0)
              \<lparr>st_x = Finite (11 / 10), st_chain = [Finite (11 / 10), Finite 0], st_accepted = 1,
               st_world = ([Finite (- 2)], [Finite (11 / 10), Finite (1 / 2)])\<rparr>) =
     Finite (11 / 10) \<and>
   st_accepted (loop_body (on_world tape_next) (logged (pure_fn (log_exponential 2)))
              (\<lambda>x. on_world (candidate_generating_density tape_next x)) (Suc 0)
              \<lparr>st_x = Finite (11 / 10), st_chain = [Finite (11 / 10), Finite 0], st_accepted = 1,
               st_world = ([Finite (- 2)], [Finite (11 / 10), Finite (1 / 2)])\<rparr>) = 1"
proof -
  let ?st1 = "\<lparr>st_x = Finite (11 / 10), st_chain = [Finite (11 / 10), Finite 0], st_accepted = 1,
               st_world = ([Finite (- 2)], [Finite (11 / 10), Finite (1 / 2)])\<rparr>"
  have start: "fl_ge (Finite (1 / 2)) (Finite 0)" by simp
  have cand: "\<not> fl_ge (candidate_of (\<lambda>x. on_world (candidate_generating_density tape_next x)) ?st1)
      (Finite 0)"
    by (simp add: candidate_of_def on_world_def candidate_generating_density_def tape_next_def)
  from logtarget_called_in_support [of "Finite (1 / 2)" tape_next 2 "pure_fn (log_exponential 2)"
      "candidate_generating_density tape_next" "[Finite 1, Finite 0, Finite (- 2)]" ?st1 "Suc 0"]
    start cand
  show ?thesis
    by (simp add: example_calls list_all_iff calls_of_def)
qed

section \<open>Fresh and shared generators\<close>

lemma rng_lambda_loop_0: "rng_lambda_loop cgd 0 s = s"
  by (simp add: rng_lambda_loop_def)

lemma rng_lambda_loop_Suc:
  "rng_lambda_loop cgd (Suc k) s = rng_lambda_body cgd k (rng_lambda_loop cgd k s)"
  by (simp add: rng_lambda_loop_def)

lemma rng_lambda_body_eq:
  "rng_lambda_body cgd i (x, chain, w) =
     (fst (cgd x w), chain[i := fst (cgd x w)], snd (cgd x w))"
  by (simp add: rng_lambda_body_def split: prod.splits)

text \<open>
  After \<open>k\<close> rounds with a generator built on every call: the first \<open>k\<close> entries
  are the first draw of a generator seeded with 1729, the world is as it was.
\<close>

lemma fresh_loop:
  "k \<le> length chain \<Longrightarrow>
   rng_lambda_loop (density_generator random_state uniform) k (x, chain, w) =
     (if k = 0 then x else fst (uniform (random_state 1729)),
      replicate k (fst (uniform (random_state 1729))) @ drop k chain, w)"
proof (induction k)
  case 0
  then show ?case by (simp add: rng_lambda_loop_0)
next
  case (Suc k)
  let ?v = "fst (uniform (random_state 1729))"
  from Suc.prems have k: "k < length chain" by simp
  then have "(replicate k ?v @ drop k chain)[k := ?v] = replicate k ?v @ (drop k chain)[0 := ?v]"
    by (simp add: list_update_append)
  also from k have "(drop k chain)[0 := ?v] = ?v # drop (Suc k) chain"
    by (simp add: Cons_nth_drop_Suc [symmetric])
  finally have upd:
    "(replicate k ?v @ drop k chain)[k := ?v] = replicate (Suc k) ?v @ drop (Suc k) chain"
    by (simp add: replicate_append_same)
  from Suc.IH k upd show ?case
    by (simp add: rng_lambda_loop_Suc rng_lambda_body_eq density_generator_def)
qed

text \<open>
  After \<open>k\<close> rounds with the captured generator: entry \<open>i\<close> is the draw of the
  generator that has drawn \<open>i\<close> times, and the generator has drawn \<open>k\<close> times.
\<close>

lemma shared_loop:
  "k \<le> length chain \<Longrightarrow>
   rng_lambda_loop (proposal uniform) k (x, chain, g) =
     (if k = 0 then x else fst (uniform (after_draws uniform (k - 1) g)),
      map (\<lambda>i. fst (uniform (after_draws uniform i g))) [0..<k] @ drop k chain,
      after_draws uniform k g)"
proof (induction k)
  case 0
  then show ?case by (simp add: rng_lambda_loop_0)
next
  case (Suc k)
  let ?d = "\<lambda>i. fst (uniform (after_draws uniform i g))"
  from Suc.prems have k: "k < length chain" by simp
  then have "(map ?d [0..<k] @ drop k chain)[k := ?d k] = map ?d [0..<k] @ (drop k chain)[0 := ?d k]"
    by (simp add: list_update_append)
  also from k have "(drop k chain)[0 := ?d k] = ?d k # drop (Suc k) chain"
    by (simp add: Cons_nth_drop_Suc [symmetric])
  finally have upd:
    "(map ?d [0..<k] @ drop k chain)[k := ?d k] = map ?d [0..<Suc k] @ drop (Suc k) chain"
    by simp
  from Suc.IH k upd show ?case
    by (simp add: rng_lambda_loop_Suc rng_lambda_body_eq proposal_def)
qed

text \<open>
  C9: driven by the closure that builds \<open>RandomState(1729)\<close> on every call,
  the loop of \<open>n\<close> rounds returns \<open>n\<close> copies of one value, the first draw of a
  generator with that seed.  Driven by the closure over one generator, entry \<open>i\<close>
  is the draw that generator makes after \<open>i\<close> earlier draws, so the entries are its
  successive draws, and the generator is left advanced by \<open>n\<close> draws.
\<close>

theorem fresh_generator_repeats_shared_advances:
  assumes "0 \<le> n"
  shows "rng_lambda n (density_generator random_state uniform) w =
           (Inr (NdArray (replicate (nat n) (fst (uniform (random_state 1729))))), w) \<and>
         rng_lambda n (proposal uniform) g =
           (Inr (NdArray (map (\<lambda>i. fst (uniform (after_draws uniform i g))) [0..<nat n])),
            after_draws uniform (nat n) g)"
proof
  have "rng_lambda_loop (density_generator random_state uniform) (nat n)
          (Finite 0, replicate (nat n) (Finite 0), w) =
        (if nat n = 0 then Finite 0 else fst (uniform (random_state 1729)),
         replicate (nat n) (fst (uniform (random_state 1729))) @
           drop (nat n) (replicate (nat n) (Finite 0)), w)"
    by (rule fresh_loop) simp
  with assms show "rng_lambda n (density_generator random_state uniform) w =
           (Inr (NdArray (replicate (nat n) (fst (uniform (random_state 1729))))), w)"
    by (simp add: rng_lambda_def)
next
  have "rng_lambda_loop (proposal uniform) (nat n) (Finite 0, replicate (nat n) (Finite 0), g) =
     (if nat n = 0 then Finite 0 else fst (uniform (after_draws uniform (nat n - 1) g)),
      map (\<lambda>i. fst (uniform (after_draws uniform i g))) [0..<nat n] @
        drop (nat n) (replicate (nat n) (Finite 0)),
      after_draws uniform (nat n) g)"
    by (rule shared_loop) simp
  with assms show "rng_lambda n (proposal uniform) g =
           (Inr (NdArray (map (\<lambda>i. fst (uniform (after_draws uniform i g))) [0..<nat n])),
            after_draws uniform (nat n) g)"
    by (simp add: rng_lambda_def)
qed

text \<open>
  Three rounds on a generator whose seed fixes the draws 0.25, -0.5 and 0.75: built
  afresh it gives 0.25 three times, captured once it gives the three draws in turn.
\<close>

theorem fresh_generator_repeats_shared_advances_witness:
  "(0 :: int) \<le> 3 \<and>
   rng_lambda 3 (density_generator (\<lambda>seed. [Finite (1 / 4), Finite (- (1 / 2)), Finite (3 / 4)]) tape_next)
       [Finite 0] =
     (Inr (NdArray [Finite (1 / 4), Finite (1 / 4), Finite (1 / 4)]), [Finite 0]) \<and>
   rng_lambda 3 (proposal tape_next) [Finite (1 / 4), Finite (- (1 / 2)), Finite (3 / 4)] =
     (Inr (NdArray [Finite (1 / 4), Finite (- (1 / 2)), Finite (3 / 4)]), [])"
  using fresh_generator_repeats_shared_advances [of 3
      "\<lambda>seed. [Finite (1 / 4), Finite (- (1 / 2)), Finite (3 / 4)]" tape_next "[Finite 0]"
      "[Finite (1 / 4), Finite (- (1 / 2)), Finite (3 / 4)]"]
  by (simp add: tape_next_def numeral_3_eq_3 upt_rec)

section \<open>Samples of the inverse transform\<close>

lemma overflow_bound_pos: "0 < overflow_bound"
proof -
  have "(2 :: real) ^ 970 < 2 ^ 1024"
    by (rule power_strict_increasing) simp_all
  then show ?thesis by (simp add: overflow_bound_def)
qed

lemma fl_round_Finite: "0 \<le> r \<Longrightarrow> r < overflow_bound \<Longrightarrow> fl_round r = Finite r"
  using overflow_bound_pos by (simp add: fl_round_def)

text \<open>A non-negative real rounds to itself or overflows to plus infinity.\<close>

lemma fl_round_nonneg: "0 \<le> r \<Longrightarrow> fl_round r = PInf \<or> fl_round r = Finite r"
  using overflow_bound_pos by (simp add: fl_round_def)

text \<open>One sample, for a rate whose reciprocal is a finite double.\<close>

lemma sample_value:
  assumes "0 < param" and "1 / param < overflow_bound" and "0 \<le> r" and "r < 1"
  shows "fl_mul_round (fl_neg (fl_round (1 / param))) (np_log (fl_sub (Finite 1) (Finite r))) =
           fl_round (- (1 / param) * ln (1 - r))"
    and "0 \<le> - (1 / param) * ln (1 - r)"
proof -
  from assms(1,2) have q: "fl_round (1 / param) = Finite (1 / param)"
    by (intro fl_round_Finite) simp_all
  from assms(3,4) show "fl_mul_round (fl_neg (fl_round (1 / param)))
      (np_log (fl_sub (Finite 1) (Finite r))) = fl_round (- (1 / param) * ln (1 - r))"
    by (simp add: q fl_sub_def fl_mul_round_def)
  from assms(3,4) have "ln (1 - r) \<le> 0" by simp
  with assms(1) show "0 \<le> - (1 / param) * ln (1 - r)"
    by (simp add: mult_nonneg_nonpos2 divide_nonpos_pos)
qed

text \<open>
  A draw of \<open>rand\<close> is a multiple of \<open>2^-53\<close> below 1, so \<open>1 - u\<close> is at least
  \<open>2^-53\<close> and the logarithm at least \<open>-53\<close>.
\<close>

lemma log_bounded:
  assumes "(r :: real) \<le> 1 - 1 / 2 ^ 53"
  shows "- ln (1 - r) \<le> 53"
proof -
  have pos: "(0 :: real) < 1 / 2 ^ 53" by simp
  from assms have le: "1 / 2 ^ 53 \<le> 1 - r" by simp
  have "ln ((2 :: real) ^ 53) = 53 * ln 2"
    using ln_realpow [of "2 :: real" 53] by simp
  then have "ln (1 / 2 ^ 53 :: real) = - (53 * ln 2)"
    by (simp add: ln_div)
  moreover have "ln (1 / 2 ^ 53 :: real) \<le> ln (1 - r)"
    using pos le by (subst ln_le_cancel_iff) (auto intro: less_le_trans)
  moreover have "ln (2 :: real) \<le> 1"
    using ln_2_less_1 by simp
  ultimately show ?thesis by simp
qed

text \<open>
  C10, as the code has it: for a rate \<open>param > 0\<close> whose reciprocal is a finite
  double and draws that all lie in \<open>[0, 1)\<close>, the expression is evaluated without
  error; for every draw \<open>u\<close> the argument \<open>1 - u\<close> of the logarithm is a positive
  number; and every sample is a number that is not negative, or plus infinity where
  the product overflows, never NaN.  When \<open>53 / param\<close> is within the doubles, as
  for the rates 1 and 2 of the notebooks, and the draws are at most \<open>1 - 2^-53\<close>,
  as the draws of \<open>rand\<close> are, every sample is a finite number that is not negative.
\<close>

theorem inverse_transform_in_support:
  assumes "0 < param"
    and "1 / param < overflow_bound"
    and "\<forall>u\<in>set (fst (rand k w)). \<exists>r. u = Finite r \<and> 0 \<le> r \<and> r < 1"
  shows "\<exists>ys. fst (exponential_rvs param rand k w) = Inr (NdArray ys) \<and>
           length ys = length (fst (rand k w)) \<and>
           (\<forall>u\<in>set (fst (rand k w)). \<exists>a. fl_sub (Finite 1) u = Finite a \<and> 0 < a) \<and>
           (\<forall>y\<in>set ys. y = PInf \<or> (\<exists>b. y = Finite b \<and> 0 \<le> b)) \<and>
           (53 / param < overflow_bound \<and>
            (\<forall>u\<in>set (fst (rand k w)). \<exists>r. u = Finite r \<and> r \<le> 1 - 1 / 2 ^ 53) \<longrightarrow>
              (\<forall>y\<in>set ys. \<exists>b. y = Finite b \<and> 0 \<le> b))"
proof -
  let ?f = "\<lambda>u. fl_mul_round (fl_neg (fl_round (1 / param))) (np_log (fl_sub (Finite 1) u))"
  let ?us = "fst (rand k w)"
  have ret: "fst (exponential_rvs param rand k w) = Inr (NdArray (map ?f ?us))"
    using assms(1) by (simp add: exponential_rvs_def split: prod.splits)
  have arg: "\<exists>a. fl_sub (Finite 1) u = Finite a \<and> 0 < a" if "u \<in> set ?us" for u
  proof -
    from assms(3) that obtain r where "u = Finite r" "0 \<le> r" "r < 1" by blast
    then show ?thesis by (simp add: fl_sub_def)
  qed
  have val: "?f u = PInf \<or> (\<exists>b. ?f u = Finite b \<and> 0 \<le> b)" if "u \<in> set ?us" for u
  proof -
    from assms(3) that obtain r where u: "u = Finite r" and r: "0 \<le> r" "r < 1" by blast
    from sample_value [OF assms(1,2) r] fl_round_nonneg [of "- (1 / param) * ln (1 - r)"] u
    show ?thesis by auto
  qed
  have fin: "\<exists>b. ?f u = Finite b \<and> 0 \<le> b"
    if "u \<in> set ?us" and small: "53 / param < overflow_bound"
      and grid: "\<forall>u\<in>set ?us. \<exists>r. u = Finite r \<and> r \<le> 1 - 1 / 2 ^ 53" for u
  proof -
    from assms(3) that(1) obtain r where u: "u = Finite r" and r: "0 \<le> r" "r < 1" by blast
    from grid that(1) u have "r \<le> 1 - 1 / 2 ^ 53" by auto
    then have "- ln (1 - r) \<le> 53" by (rule log_bounded)
    with assms(1) have "(1 / param) * (- ln (1 - r)) \<le> (1 / param) * 53"
      by (intro mult_left_mono) simp_all
    with small have below: "- (1 / param) * ln (1 - r) < overflow_bound" by simp
    from sample_value [OF assms(1,2) r] have
      "?f (Finite r) = fl_round (- (1 / param) * ln (1 - r))" "0 \<le> - (1 / param) * ln (1 - r)"
      by simp_all
    with fl_round_Finite [OF _ below] u show ?thesis by simp
  qed
  from ret arg val fin show ?thesis by auto
qed

text \<open>The rate 2 of the notebook and the draws 0 and 0.5.\<close>

theorem inverse_transform_in_support_witness:
  "(0 :: real) < 2 \<and>
   (1 :: real) / 2 < overflow_bound \<and>
   (53 :: real) / 2 < overflow_bound \<and>
   fst (tape_rand 2 [Finite 0, Finite (1 / 2), Finite (3 / 4)]) = [Finite 0, Finite (1 / 2)] \<and>
   (\<exists>ys. fst (exponential_rvs 2 tape_rand 2 [Finite 0, Finite (1 / 2), Finite (3 / 4)]) =
           Inr (NdArray ys) \<and>
         length ys = 2 \<and>
         (\<forall>u\<in>set [Finite 0, Finite (1 / 2)]. \<exists>a. fl_sub (Finite 1) u = Finite a \<and> 0 < a) \<and>
         (\<forall>y\<in>set ys. \<exists>b. y = Finite b \<and> 0 \<le> b))"
proof -
  have pos: "(0 :: real) < 2" by simp
  have big: "(53 :: real) < overflow_bound"
  proof -
    have "(2 :: real) ^ 970 * 2 \<le> 2 ^ 1024"
      using power_increasing [of 971 1024 "2 :: real"] by simp
    moreover have "(53 :: real) < 2 ^ 970"
      using power_increasing [of 6 970 "2 :: real"] by simp
    ultimately show ?thesis by (simp add: overflow_bound_def)
  qed
  then have q: "(1 :: real) / 2 < overflow_bound" and s: "(53 :: real) / 2 < overflow_bound"
    by simp_all
  have draws: "fst (tape_rand 2 [Finite 0, Finite (1 / 2), Finite (3 / 4)]) =
      [Finite 0, Finite (1 / 2)]"
    by (simp add: tape_rand_def numeral_2_eq_2)
  have unit: "\<forall>u\<in>set (fst (tape_rand 2 [Finite 0, Finite (1 / 2), Finite (3 / 4)])).
      \<exists>r. u = Finite r \<and> 0 \<le> r \<and> r < 1"
  proof
    fix u
    assume "u \<in> set (fst (tape_rand 2 [Finite 0, Finite (1 / 2), Finite (3 / 4)]))"
    then consider "u = Finite 0" | "u = Finite (1 / 2)"
      by (auto simp: draws)
    then show "\<exists>r. u = Finite r \<and> 0 \<le> r \<and> r < 1"
    proof cases
      case 1
      then show ?thesis by (intro exI [of _ 0]) simp
    next
      case 2
      then show ?thesis by (intro exI [of _ "1 / 2"]) simp
    qed
  qed
  have grid: "\<forall>u\<in>set (fst (tape_rand 2 [Finite 0, Finite (1 / 2), Finite (3 / 4)])).
      \<exists>r. u = Finite r \<and> r \<le> 1 - 1 / 2 ^ 53"
  proof
    fix u
    assume "u \<in> set (fst (tape_rand 2 [Finite 0, Finite (1 / 2), Finite (3 / 4)]))"
    then consider "u = Finite 0" | "u = Finite (1 / 2)"
      by (auto simp: draws)
    then show "\<exists>r. u = Finite r \<and> r \<le> 1 - 1 / 2 ^ 53"
    proof cases
      case 1
      then show ?thesis by (intro exI [of _ 0]) simp
    next
      case 2
      then show ?thesis by (intro exI [of _ "1 / 2"]) simp
    qed
  qed
  from inverse_transform_in_support [where param = 2 and rand = tape_rand and k = 2
      and w = "[Finite 0, Finite (1 / 2), Finite (3 / 4)]", OF pos q unit] s grid
  have "\<exists>ys. fst (exponential_rvs 2 tape_rand 2 [Finite 0, Finite (1 / 2), Finite (3 / 4)]) =
           Inr (NdArray ys) \<and>
         length ys = 2 \<and>
         (\<forall>u\<in>set [Finite 0, Finite (1 / 2)]. \<exists>a. fl_sub (Finite 1) u = Finite a \<and> 0 < a) \<and>
         (\<forall>y\<in>set ys. \<exists>b. y = Finite b \<and> 0 \<le> b)"
    unfolding draws by auto
  with pos q s draws show ?thesis by blast
qed

text \<open>
  The spec has this for every rate above zero.  For the rate \<open>2^-1030\<close>, a positive
  double, the reciprocal overflows to infinity, and with the draw 0, where the
  logarithm is 0, the sample is the product of minus infinity and zero: NaN.
\<close>

theorem inverse_transform_overflow_counterexample:
  "(0 :: real) < 1 / 2 ^ 1030 \<and>
   fst (tape_rand 1 [Finite 0]) = [Finite 0] \<and>
   fst (exponential_rvs (1 / 2 ^ 1030) tape_rand 1 [Finite 0]) = Inr (NdArray [NaN])"
proof -
  have "(2 :: real) ^ 1024 \<le> 2 ^ 1030"
    by (rule power_increasing) simp_all
  then have "overflow_bound \<le> 2 ^ 1030"
    by (simp add: overflow_bound_def)
  then have "fl_round (1 / (1 / 2 ^ 1030)) = PInf"
    by (simp add: fl_round_def)
  then show ?thesis
    by (simp add: exponential_rvs_def tape_rand_def fl_mul_round_def fl_sub_def)
qed

end
